theory Spec2Isabelle
  imports
    Complex_Main
    "HOL-Library.AList"
    "HOL-Library.Char_ord"
    "HOL-Library.List_Lexorder"
    "HOL-Library.Multiset"
    "HOL-Library.Product_Lexorder"
begin

section \<open>Python values, exceptions and dictionaries\<close>

text \<open>
  The issue store of \<^verbatim>\<open>app.py\<close> keeps its records as Python dictionaries, read from and
  written to \<^verbatim>\<open>issues.json\<close>. A value is what \<^verbatim>\<open>json.load\<close> can return. A dictionary is
  an association list in insertion order; item assignment is \<open>AList.update\<close> (an existing key
  keeps its place, a new key goes to the end) and lookup is \<open>map_of\<close>. A string is a list of
  characters, each a code point below 256; a finite float is the real number it denotes.
\<close>

datatype exn =
  KeyError | TypeError | AttributeError | ValueError
  | JSONDecodeError | UnicodeDecodeError | OSError

datatype val =
  VNone | VBool bool | VInt int | VFloat real | VStr string
  | VList "val list" | VDict "(string \<times> val) list"

type_synonym dict = "(string \<times> val) list"

text \<open>\<^verbatim>\<open>d.get(k)\<close> and \<^verbatim>\<open>d.get(k, default)\<close>.\<close>

definition py_get :: "dict \<Rightarrow> string \<Rightarrow> val" where
  "py_get d k = (case map_of d k of None \<Rightarrow> VNone | Some v \<Rightarrow> v)"

definition py_get_default :: "dict \<Rightarrow> string \<Rightarrow> val \<Rightarrow> val" where
  "py_get_default d k dflt = (case map_of d k of None \<Rightarrow> dflt | Some v \<Rightarrow> v)"

text \<open>\<^verbatim>\<open>x[k]\<close> with a string key: only a dictionary can be subscripted by a string.\<close>

fun py_getitem :: "val \<Rightarrow> string \<Rightarrow> exn + val" where
  "py_getitem (VDict d) k = (case map_of d k of None \<Rightarrow> Inl KeyError | Some v \<Rightarrow> Inr v)"
| "py_getitem _ k = Inl TypeError"

text \<open>\<^verbatim>\<open>d.update(patch)\<close>: the items of the patch are assigned in order.\<close>

definition dict_update :: "dict \<Rightarrow> dict \<Rightarrow> dict" where
  "dict_update d patch = fold (\<lambda>(k, v) acc. AList.update k v acc) patch d"

text \<open>
  \<^verbatim>\<open>==\<close>: booleans, integers and floats compare by numeric value, strings and \<^verbatim>\<open>None\<close> by
  identity of content, lists element by element, dictionaries key by key whatever the order.
\<close>

fun num_of :: "val \<Rightarrow> real option" where
  "num_of (VBool b) = Some (if b then 1 else 0)"
| "num_of (VInt n) = Some (of_int n)"
| "num_of (VFloat r) = Some r"
| "num_of _ = None"

fun py_eq :: "val \<Rightarrow> val \<Rightarrow> bool" where
  "py_eq (VList xs) (VList ys) = list_all2 py_eq xs ys"
| "py_eq (VDict a) (VDict b) =
     (length a = length b \<and>
      list_all (\<lambda>(k, v). case map_of b k of None \<Rightarrow> False | Some w \<Rightarrow> py_eq v w) a)"
| "py_eq (VStr s) (VStr t) = (s = t)"
| "py_eq VNone VNone = True"
| "py_eq a b = (case (num_of a, num_of b) of (Some x, Some y) \<Rightarrow> x = y | _ \<Rightarrow> False)"

text \<open>Iteration (\<^verbatim>\<open>for x in data\<close>): a list yields its elements, a dictionary its keys, a
  string its characters; nothing else that \<^verbatim>\<open>json.load\<close> returns is iterable.\<close>

fun py_iter :: "val \<Rightarrow> exn + val list" where
  "py_iter (VList xs) = Inr xs"
| "py_iter (VDict d) = Inr (map (\<lambda>(k, v). VStr k) d)"
| "py_iter (VStr s) = Inr (map (\<lambda>c. VStr [c]) s)"
| "py_iter _ = Inl TypeError"

subsection \<open>Strings\<close>

text \<open>\<^verbatim>\<open>str.isspace\<close> on the code points below 256, and \<^verbatim>\<open>str.strip()\<close>.\<close>

definition is_space :: "char \<Rightarrow> bool" where
  "is_space c =
     (let n = (of_char c :: nat)
      in (9 \<le> n \<and> n \<le> 13) \<or> (28 \<le> n \<and> n \<le> 32) \<or> n = 133 \<or> n = 160)"

definition strip :: "string \<Rightarrow> string" where
  "strip s = rev (dropWhile is_space (rev (dropWhile is_space s)))"

text \<open>\<^verbatim>\<open>str.lower()\<close> on the code points below 256: the ASCII capitals and the Latin-1
  capitals (all of 192 to 222 but the multiplication sign) move up by 32.\<close>

definition char_lower :: "char \<Rightarrow> char" where
  "char_lower c =
     (let n = (of_char c :: nat)
      in if (65 \<le> n \<and> n \<le> 90) \<or> (192 \<le> n \<and> n \<le> 222 \<and> n \<noteq> 215)
         then char_of (n + 32) else c)"

definition lower :: "string \<Rightarrow> string" where
  "lower s = map char_lower s"

text \<open>\<^verbatim>\<open>sub in s\<close> for strings: \<open>sub\<close> occurs in \<open>s\<close> as a contiguous block.\<close>

definition starts_with :: "string \<Rightarrow> string \<Rightarrow> bool" where
  "starts_with s sub = (take (length sub) s = sub)"

fun py_in :: "string \<Rightarrow> string \<Rightarrow> bool" where
  "py_in sub [] = (sub = [])"
| "py_in sub (c # cs) = (starts_with (c # cs) sub \<or> py_in sub cs)"

text \<open>
  \<^verbatim>\<open>int(v)\<close>. A float is truncated towards zero. A string loses the white space around it
  and is read as an optionally signed decimal literal whose digits may be separated by single
  underscores. The white space that \<^verbatim>\<open>int\<close> skips is narrower than \<^verbatim>\<open>str.isspace\<close>: below 256 it is
  the code points 9 to 13, 32, 133 and 160, and not 28 to 31. A literal of more than 4300
  digits is refused with \<^verbatim>\<open>ValueError\<close> (the interpreter's default limit, from version 3.11).
\<close>

definition is_int_space :: "char \<Rightarrow> bool" where
  "is_int_space c =
     (let n = (of_char c :: nat) in (9 \<le> n \<and> n \<le> 13) \<or> n = 32 \<or> n = 133 \<or> n = 160)"

definition is_digit :: "char \<Rightarrow> bool" where
  "is_digit c = (let n = (of_char c :: nat) in 48 \<le> n \<and> n \<le> 57)"

fun digits_shape :: "string \<Rightarrow> bool" where
  "digits_shape [] = False"
| "digits_shape [c] = is_digit c"
| "digits_shape (c # d # cs) =
     (is_digit c \<and> (if d = CHR ''_'' then digits_shape cs else digits_shape (d # cs)))"

definition digits_ok :: "string \<Rightarrow> bool" where
  "digits_ok s = (digits_shape s \<and> length (filter is_digit s) \<le> 4300)"

definition digits_value :: "string \<Rightarrow> int" where
  "digits_value s =
     foldl (\<lambda>acc c. if c = CHR ''_'' then acc else 10 * acc + (int (of_char c) - 48)) 0 s"

definition int_of_str :: "string \<Rightarrow> exn + int" where
  "int_of_str s =
     (case rev (dropWhile is_int_space (rev (dropWhile is_int_space s))) of
        [] \<Rightarrow> Inl ValueError
      | c # cs \<Rightarrow>
          if c = CHR ''-'' then (if digits_ok cs then Inr (- digits_value cs) else Inl ValueError)
          else if c = CHR ''+'' then (if digits_ok cs then Inr (digits_value cs) else Inl ValueError)
          else if digits_ok (c # cs) then Inr (digits_value (c # cs)) else Inl ValueError)"

fun py_int :: "val \<Rightarrow> exn + int" where
  "py_int (VInt n) = Inr n"
| "py_int (VBool b) = Inr (if b then 1 else 0)"
| "py_int (VFloat r) = Inr (if 0 \<le> r then \<lfloor>r\<rfloor> else \<lceil>r\<rceil>)"
| "py_int (VStr s) = int_of_str s"
| "py_int _ = Inl TypeError"

section \<open>The persisted collection\<close>

text \<open>
  The state of \<^verbatim>\<open>issues.json\<close>: it does not exist, or it holds the JSON text of a value, or
  opening and reading it raises an exception (\<^verbatim>\<open>JSONDecodeError\<close> when the text is not JSON,
  \<^verbatim>\<open>UnicodeDecodeError\<close> when the bytes are not UTF-8, \<^verbatim>\<open>OSError\<close> when the file cannot be
  opened). Writing is taken to succeed.
\<close>

datatype db_file = Missing | Stored val | Broken exn

fun load_data :: "db_file \<Rightarrow> exn + val" where
  "load_data Missing = Inr (VList [])"
| "load_data (Stored v) = Inr v"
| "load_data (Broken e) = (if e = JSONDecodeError then Inr (VList []) else Inl e)"

definition save_data :: "val \<Rightarrow> db_file" where
  "save_data items = Stored items"

section \<open>Mutations\<close>

text \<open>
  The three mutators share one loop:
  \<^verbatim>\<open>for i, it in enumerate(data): if it["id"] == issue_id: <body>; data[i] = it; break\<close>.
  The body works on the dictionary \<open>it\<close>; the first match is patched and the loop stops.
\<close>

fun patch_first :: "val \<Rightarrow> (dict \<Rightarrow> exn + dict) \<Rightarrow> val list \<Rightarrow> exn + val list" where
  "patch_first issue_id body [] = Inr []"
| "patch_first issue_id body (it # rest) =
     (case it of
        VDict d \<Rightarrow>
          (case map_of d ''id'' of
             None \<Rightarrow> Inl KeyError
           | Some v \<Rightarrow>
               if py_eq v issue_id
               then (case body d of Inl e \<Rightarrow> Inl e | Inr d' \<Rightarrow> Inr (VDict d' # rest))
               else (case patch_first issue_id body rest of
                       Inl e \<Rightarrow> Inl e
                     | Inr rest' \<Rightarrow> Inr (it # rest')))
      | _ \<Rightarrow> Inl TypeError)"

definition patch_data :: "val \<Rightarrow> (dict \<Rightarrow> exn + dict) \<Rightarrow> val \<Rightarrow> exn + val" where
  "patch_data issue_id body data =
     (case py_iter data of
        Inl e \<Rightarrow> Inl e
      | Inr items \<Rightarrow>
          (case patch_first issue_id body items of
             Inl e \<Rightarrow> Inl e
           | Inr items' \<Rightarrow> Inr (case data of VList xs \<Rightarrow> VList items' | _ \<Rightarrow> data)))"

definition add_issue :: "val \<Rightarrow> db_file \<Rightarrow> exn + db_file" where
  "add_issue issue f =
     (case load_data f of
        Inl e \<Rightarrow> Inl e
      | Inr data \<Rightarrow>
          (case data of
             VList xs \<Rightarrow> Inr (save_data (VList (xs @ [issue])))
           | _ \<Rightarrow> Inl AttributeError))"

definition update_issue :: "val \<Rightarrow> dict \<Rightarrow> db_file \<Rightarrow> exn + db_file" where
  "update_issue issue_id patch f =
     (case load_data f of
        Inl e \<Rightarrow> Inl e
      | Inr data \<Rightarrow>
          (case patch_data issue_id (\<lambda>it. Inr (dict_update it patch)) data of
             Inl e \<Rightarrow> Inl e
           | Inr data' \<Rightarrow> Inr (save_data data')))"

definition upvote_body :: "dict \<Rightarrow> exn + dict" where
  "upvote_body it =
     (case py_int (py_get_default it ''votes'' (VInt 0)) of
        Inl e \<Rightarrow> Inl e
      | Inr n \<Rightarrow> Inr (AList.update ''votes'' (VInt (n + 1)) it))"

definition upvote_issue :: "val \<Rightarrow> db_file \<Rightarrow> exn + db_file" where
  "upvote_issue issue_id f =
     (case load_data f of
        Inl e \<Rightarrow> Inl e
      | Inr data \<Rightarrow>
          (case patch_data issue_id upvote_body data of
             Inl e \<Rightarrow> Inl e
           | Inr data' \<Rightarrow> Inr (save_data data')))"

text \<open>
  \<^verbatim>\<open>add_update(issue_id, text, status=None)\<close>; \<open>now_ms\<close> is \<^verbatim>\<open>int(time.time()*1000)\<close>. The
  status argument is \<^verbatim>\<open>None\<close> or a string; \<open>status_or\<close> is \<^verbatim>\<open>status or other\<close>, and
  \<^verbatim>\<open>if status\<close> tests the same truth value.
\<close>

definition status_or :: "string option \<Rightarrow> val \<Rightarrow> val" where
  "status_or status other =
     (case status of None \<Rightarrow> other | Some s \<Rightarrow> if s = [] then other else VStr s)"

definition add_update_body :: "int \<Rightarrow> string \<Rightarrow> string option \<Rightarrow> dict \<Rightarrow> exn + dict" where
  "add_update_body now_ms text status it =
     (case py_get_default it ''updates'' (VList []) of
        VList updates \<Rightarrow>
          (let entry = VDict [(''ts'', VInt now_ms), (''text'', VStr text),
                 (''status'', status_or status (py_get_default it ''status'' (VStr ''open'')))];
               it1 = AList.update ''updates'' (VList (updates @ [entry])) it
           in Inr (case status of
                     None \<Rightarrow> it1
                   | Some s \<Rightarrow> if s = [] then it1 else AList.update ''status'' (VStr s) it1))
      | _ \<Rightarrow> Inl AttributeError)"

definition add_update :: "int \<Rightarrow> val \<Rightarrow> string \<Rightarrow> string option \<Rightarrow> db_file \<Rightarrow> exn + db_file" where
  "add_update now_ms issue_id text status f =
     (case load_data f of
        Inl e \<Rightarrow> Inl e
      | Inr data \<Rightarrow>
          (case patch_data issue_id (add_update_body now_ms text status) data of
             Inl e \<Rightarrow> Inl e
           | Inr data' \<Rightarrow> Inr (save_data data')))"

section \<open>Deleting\<close>

text \<open>
  The delete button of a listed record \<open>it\<close>: it is drawn only when the record's
  \<^verbatim>\<open>created_by\<close> equals the session's user id, and pressing it writes back every record
  whose id differs from that of \<open>it\<close>. \<open>clicked\<close> tells whether the button is pressed.
\<close>

fun remove_id :: "dict \<Rightarrow> val list \<Rightarrow> exn + val list" where
  "remove_id it [] = Inr []"
| "remove_id it (x # xs) =
     (case py_getitem x ''id'' of
        Inl e \<Rightarrow> Inl e
      | Inr xid \<Rightarrow>
          (case py_getitem (VDict it) ''id'' of
             Inl e \<Rightarrow> Inl e
           | Inr iid \<Rightarrow>
               (case remove_id it xs of
                  Inl e \<Rightarrow> Inl e
                | Inr ys \<Rightarrow> Inr (if \<not> py_eq xid iid then x # ys else ys))))"

definition delete_button :: "dict \<Rightarrow> string \<Rightarrow> bool \<Rightarrow> db_file \<Rightarrow> exn + db_file" where
  "delete_button it user_id clicked f =
     (if py_eq (py_get it ''created_by'') (VStr user_id)
      then (if clicked
            then (case load_data f of
                    Inl e \<Rightarrow> Inl e
                  | Inr data \<Rightarrow>
                      (case py_iter data of
                         Inl e \<Rightarrow> Inl e
                       | Inr items \<Rightarrow>
                           (case remove_id it items of
                              Inl e \<Rightarrow> Inl e
                            | Inr kept \<Rightarrow> Inr (save_data (VList kept)))))
            else Inr f)
      else Inr f)"

section \<open>Filtering and ordering for display\<close>

text \<open>
  The sidebar's criteria: category and status (an id or \<^verbatim>\<open>"all"\<close>), the search text and the
  "only my issues" box. \<open>repr\<close> is the interpreter's \<^verbatim>\<open>str()\<close> on values that are not
  strings, which an f-string applies to what it interpolates.
\<close>

record criteria =
  cat :: string
  stt :: string
  q :: string
  only_mine :: bool

definition py_format :: "(val \<Rightarrow> string) \<Rightarrow> val \<Rightarrow> string" where
  "py_format repr v = (case v of VStr s \<Rightarrow> s | _ \<Rightarrow> repr v)"

definition blob :: "(val \<Rightarrow> string) \<Rightarrow> dict \<Rightarrow> string" where
  "blob repr it =
     lower (py_format repr (py_get_default it ''title'' (VStr [])) @ '' '' @
            py_format repr (py_get_default it ''description'' (VStr [])) @ '' '' @
            py_format repr (py_get_default it ''address'' (VStr [])))"

definition matches :: "(val \<Rightarrow> string) \<Rightarrow> criteria \<Rightarrow> string \<Rightarrow> dict \<Rightarrow> bool" where
  "matches repr c user_id it =
     (if cat c \<noteq> ''all'' \<and> \<not> py_eq (py_get it ''category'') (VStr (cat c)) then False
      else if stt c \<noteq> ''all'' \<and> \<not> py_eq (py_get it ''status'') (VStr (stt c)) then False
      else if only_mine c \<and> \<not> py_eq (py_get it ''created_by'') (VStr user_id) then False
      else if q c \<noteq> [] then (if \<not> py_in (lower (q c)) (blob repr it) then False else True)
      else True)"

text \<open>
  \<^verbatim>\<open>matches\<close> on any element of the collection. Only a dictionary has \<^verbatim>\<open>get\<close>: on another value
  the first \<^verbatim>\<open>it.get\<close> that is reached raises \<^verbatim>\<open>AttributeError\<close>, and none is reached when no
  criterion is set, in which case \<^verbatim>\<open>matches\<close> returns \<^verbatim>\<open>True\<close>.
\<close>

definition matches_value :: "(val \<Rightarrow> string) \<Rightarrow> criteria \<Rightarrow> string \<Rightarrow> val \<Rightarrow> exn + bool" where
  "matches_value repr c user_id x =
     (case x of
        VDict it \<Rightarrow> Inr (matches repr c user_id it)
      | _ \<Rightarrow>
          if cat c \<noteq> ''all'' then Inl AttributeError
          else if stt c \<noteq> ''all'' then Inl AttributeError
          else if only_mine c then Inl AttributeError
          else if q c \<noteq> [] then Inl AttributeError
          else Inr True)"

text \<open>\<^verbatim>\<open>filtered = [it for it in data if matches(it)]\<close>, the elements taken from the left.\<close>

fun filter_items :: "(val \<Rightarrow> string) \<Rightarrow> criteria \<Rightarrow> string \<Rightarrow> val list \<Rightarrow> exn + val list" where
  "filter_items repr c user_id [] = Inr []"
| "filter_items repr c user_id (x # xs) =
     (case matches_value repr c user_id x of
        Inl e \<Rightarrow> Inl e
      | Inr keep \<Rightarrow>
          (case filter_items repr c user_id xs of
             Inl e \<Rightarrow> Inl e
           | Inr kept \<Rightarrow> Inr (if keep then x # kept else kept)))"

definition filtered :: "(val \<Rightarrow> string) \<Rightarrow> criteria \<Rightarrow> string \<Rightarrow> val \<Rightarrow> exn + val list" where
  "filtered repr c user_id data =
     (case py_iter data of Inl e \<Rightarrow> Inl e | Inr items \<Rightarrow> filter_items repr c user_id items)"

text \<open>
  The listing is
  \<^verbatim>\<open>sorted(filtered, key=lambda x: (x.get("status") != "open", -x.get("votes",0), x.get("created_at","")))\<close>.
  \<^verbatim>\<open>sorted\<close> computes the key of every element, then sorts stably by \<^verbatim>\<open><\<close> on the keys,
  and tuples compare lexicographically. Negation is defined on numbers only. The keys are
  compared as triples of a boolean, a number and a string: a \<^verbatim>\<open>created_at\<close> that is not a
  string is outside what this key covers, and is reported as the \<^verbatim>\<open>TypeError\<close> that
  comparing it with a string raises.
\<close>

fun py_neg :: "val \<Rightarrow> exn + real" where
  "py_neg (VInt n) = Inr (- of_int n)"
| "py_neg (VBool b) = Inr (- (if b then 1 else 0))"
| "py_neg (VFloat r) = Inr (- r)"
| "py_neg _ = Inl TypeError"

definition sort_key_of :: "dict \<Rightarrow> exn + (bool \<times> real \<times> string)" where
  "sort_key_of x =
     (case py_neg (py_get_default x ''votes'' (VInt 0)) of
        Inl e \<Rightarrow> Inl e
      | Inr neg_votes \<Rightarrow>
          (case py_get_default x ''created_at'' (VStr []) of
             VStr created \<Rightarrow>
               Inr (\<not> py_eq (py_get x ''status'') (VStr ''open''), neg_votes, created)
           | _ \<Rightarrow> Inl TypeError))"

fun keyed :: "dict list \<Rightarrow> exn + ((bool \<times> real \<times> string) \<times> dict) list" where
  "keyed [] = Inr []"
| "keyed (x # xs) =
     (case sort_key_of x of
        Inl e \<Rightarrow> Inl e
      | Inr k \<Rightarrow> (case keyed xs of Inl e \<Rightarrow> Inl e | Inr ks \<Rightarrow> Inr ((k, x) # ks)))"

definition sorted_for_display :: "dict list \<Rightarrow> exn + dict list" where
  "sorted_for_display xs =
     (case keyed xs of Inl e \<Rightarrow> Inl e | Inr ks \<Rightarrow> Inr (map snd (sort_key fst ks)))"

section \<open>Reporting an issue\<close>

text \<open>
  What a submission changes: the collection file, the files under the upload directory
  (path and bytes), the session's user id, and the geocode cache. What it reads from outside:
  the two \<^verbatim>\<open>uuid.uuid4()\<close> draws (one for a session without a user id, one for the issue),
  the clock (\<^verbatim>\<open>datetime.utcnow().isoformat()\<close> and \<^verbatim>\<open>int(time.time()*1000)\<close>), the upload
  directory and the geocoding service (\<open>None\<close> when it finds nothing or fails).
\<close>

record world =
  db :: db_file
  uploads :: "(string \<times> string) list"
  session_user_id :: "string option"
  geocode_cache :: "(string \<times> real \<times> real) list"

record env =
  uuid_user :: string
  uuid_issue :: string
  now_iso :: string
  now_ms :: int
  upload_dir :: string
  geocode :: "string \<Rightarrow> (real \<times> real) option"

text \<open>An uploaded photo: \<open>name_suffix\<close> is \<^verbatim>\<open>pathlib.Path(image_file.name).suffix\<close>.\<close>

record image =
  name_suffix :: string
  buffer :: string

definition geocode_address :: "env \<Rightarrow> string \<Rightarrow> world \<Rightarrow> (real \<times> real) option \<times> world" where
  "geocode_address e address w =
     (if address = [] then (None, w)
      else (let key = strip address
            in case map_of (geocode_cache w) key of
                 Some coords \<Rightarrow> (Some coords, w)
               | None \<Rightarrow>
                   (case geocode e key of
                      Some coords \<Rightarrow>
                        (Some coords,
                         w\<lparr>geocode_cache := AList.update key coords (geocode_cache w)\<rparr>)
                    | None \<Rightarrow> (None, w))))"

definition ensure_user_id :: "env \<Rightarrow> world \<Rightarrow> string \<times> world" where
  "ensure_user_id e w =
     (case session_user_id w of
        None \<Rightarrow> (uuid_user e, w\<lparr>session_user_id := Some (uuid_user e)\<rparr>)
      | Some u \<Rightarrow> (u, w))"

definition new_issue_payload ::
  "env \<Rightarrow> string \<Rightarrow> string \<Rightarrow> string \<Rightarrow> real \<Rightarrow> real \<Rightarrow> string option \<Rightarrow> image option
     \<Rightarrow> world \<Rightarrow> val \<times> world" where
  "new_issue_payload e title description category lat lng address image_file w =
     (let (user_id, w1) = ensure_user_id e w;
          issue_id = uuid_issue e;
          (image_path, w2) =
            (case image_file of
               None \<Rightarrow> (VNone, w1)
             | Some img \<Rightarrow>
                 (let suffix = (if name_suffix img = [] then ''.jpg'' else name_suffix img);
                      filename = issue_id @ suffix;
                      path = upload_dir e @ ''/'' @ filename
                  in (VStr path, w1\<lparr>uploads := AList.update path (buffer img) (uploads w1)\<rparr>)))
      in (VDict
            [(''id'', VStr issue_id),
             (''title'', VStr (strip title)),
             (''description'', VStr (strip description)),
             (''category'', VStr category),
             (''status'', VStr ''open''),
             (''lat'', VFloat lat),
             (''lng'', VFloat lng),
             (''address'', VStr (strip (case address of None \<Rightarrow> [] | Some a \<Rightarrow> a))),
             (''image_path'', image_path),
             (''votes'', VInt 0),
             (''created_at'', VStr (now_iso e @ ''Z'')),
             (''created_by'', VStr user_id),
             (''updates'',
              VList [VDict [(''ts'', VInt (now_ms e)), (''text'', VStr ''Issue reported''),
                            (''status'', VStr ''open'')]])],
          w2))"

text \<open>
  The submit handler of the report form. It shows notices; an exception of \<^verbatim>\<open>add_issue\<close>
  ends it after the photo and the session have been written.
\<close>

datatype notice = Error string | Warning string | Success string

record form =
  title :: string
  description :: string
  category :: string
  address :: string
  image_file :: "image option"
  lat :: real
  lng :: real

definition submit_report :: "env \<Rightarrow> form \<Rightarrow> world \<Rightarrow> (exn + notice list) \<times> world" where
  "submit_report e fm w =
     (if strip (title fm) = [] \<or> strip (description fm) = []
      then (Inr [Error ''Please fill Title and Description.''], w)
      else
        (let (geo, notes, w1) =
               (if address fm \<noteq> [] \<and> strip (address fm) \<noteq> []
                then (case geocode_address e (address fm) w of
                        (Some coords, w') \<Rightarrow> (coords, [], w')
                      | (None, w') \<Rightarrow>
                          ((lat fm, lng fm),
                           [Warning ''Address could not be geocoded; using selected coordinates.''],
                           w'))
                else ((lat fm, lng fm), [], w));
             (payload, w2) =
               new_issue_payload e (title fm) (description fm) (category fm) (fst geo) (snd geo)
                 (Some (address fm)) (image_file fm) w1
         in case add_issue payload (db w2) of
              Inl x \<Rightarrow> (Inl x, w2)
            | Inr f \<Rightarrow> (Inr (notes @ [Success ''Issue submitted!'']), w2\<lparr>db := f\<rparr>)))"

section \<open>Vocabulary of the statements\<close>

text \<open>
  \<open>has_id issue_id x\<close>: the loop's test \<^verbatim>\<open>x["id"] == issue_id\<close> succeeds on \<open>x\<close>. An issue
  record is a dictionary whose id is a string, whose votes, when present, are an integer and
  whose updates, when present, are a list: the fields as the application writes them, any of
  them but the id possibly absent.
\<close>

fun has_id :: "val \<Rightarrow> val \<Rightarrow> bool" where
  "has_id issue_id (VDict d) =
     (case map_of d ''id'' of None \<Rightarrow> False | Some v \<Rightarrow> py_eq v issue_id)"
| "has_id issue_id _ = False"

fun is_str :: "val \<Rightarrow> bool" where
  "is_str (VStr s) = True"
| "is_str _ = False"

fun is_int :: "val \<Rightarrow> bool" where
  "is_int (VInt n) = True"
| "is_int _ = False"

fun is_list :: "val \<Rightarrow> bool" where
  "is_list (VList xs) = True"
| "is_list _ = False"

fun issue_record :: "val \<Rightarrow> bool" where
  "issue_record (VDict d) =
     (is_str (py_get d ''id'') \<and> is_int (py_get_default d ''votes'' (VInt 0))
      \<and> is_list (py_get_default d ''updates'' (VList [])))"
| "issue_record _ = False"

text \<open>
  \<open>votes_of\<close> and \<open>updates_of\<close> read a record as the mutators do
  (\<^verbatim>\<open>it.get("votes", 0)\<close>, \<^verbatim>\<open>it.get("updates", [])\<close>). \<open>upvote_times n\<close> is a caller that
  makes \<open>n\<close> calls of \<open>upvote_issue\<close> one after the other, stopping at the first exception.
\<close>

definition votes_of :: "dict \<Rightarrow> int" where
  "votes_of d = (case py_get_default d ''votes'' (VInt 0) of VInt n \<Rightarrow> n | _ \<Rightarrow> 0)"

definition updates_of :: "dict \<Rightarrow> val list" where
  "updates_of d = (case py_get_default d ''updates'' (VList []) of VList us \<Rightarrow> us | _ \<Rightarrow> [])"


text \<open>\<open>id_of\<close> is the id a value carries: \<^verbatim>\<open>x.get("id")\<close> for a dictionary.\<close>

fun id_of :: "val \<Rightarrow> val" where
  "id_of (VDict d) = py_get d ''id''"
| "id_of _ = VNone"

text \<open>
  For the listing: \<open>is_open\<close> is the first component of the sort key read the other way
  round (\<^verbatim>\<open>x.get("status") == "open"\<close>), \<open>created_at_of\<close> reads \<^verbatim>\<open>x.get("created_at", "")\<close>, and
  a record is \<open>listable\<close> when its votes, if present, are an integer and its \<^verbatim>\<open>created_at\<close>, if
  present, is a string, as the application writes them. \<open>display_key\<close> is the key of a listable
  record.
\<close>

definition is_open :: "dict \<Rightarrow> bool" where
  "is_open x = py_eq (py_get x ''status'') (VStr ''open'')"

definition created_at_of :: "dict \<Rightarrow> string" where
  "created_at_of x = (case py_get_default x ''created_at'' (VStr []) of VStr s \<Rightarrow> s | _ \<Rightarrow> [])"

definition listable :: "dict \<Rightarrow> bool" where
  "listable x = (is_int (py_get_default x ''votes'' (VInt 0))
     \<and> is_str (py_get_default x ''created_at'' (VStr [])))"

definition display_key :: "dict \<Rightarrow> bool \<times> real \<times> string" where
  "display_key x = (\<not> is_open x, - of_int (votes_of x), created_at_of x)"

section \<open>Facts about the shared loop\<close>

lemma py_eq_VStr: "py_eq v (VStr s) \<longleftrightarrow> v = VStr s"
  by (cases v) simp_all

lemma py_eq_VStr_left: "py_eq (VStr s) v \<longleftrightarrow> v = VStr s"
  by (cases v) auto

lemma is_str_iff: "is_str v \<longleftrightarrow> (\<exists>s. v = VStr s)"
  by (cases v) simp_all

lemma is_int_iff: "is_int v \<longleftrightarrow> (\<exists>n. v = VInt n)"
  by (cases v) simp_all

lemma is_list_iff: "is_list v \<longleftrightarrow> (\<exists>xs. v = VList xs)"
  by (cases v) simp_all

lemma issue_record_dict:
  assumes "issue_record x"
  shows "\<exists>d s. x = VDict d \<and> map_of d ''id'' = Some (VStr s)"
proof -
  from assms obtain d where d: "x = VDict d" by (cases x) simp_all
  with assms have "is_str (py_get d ''id'')" by simp
  then obtain s where "py_get d ''id'' = VStr s" by (auto simp: is_str_iff)
  then have "map_of d ''id'' = Some (VStr s)"
    by (simp add: py_get_def split: option.splits)
  with d show ?thesis by blast
qed

lemma patch_first_miss:
  "list_all issue_record xs \<Longrightarrow> \<not> list_ex (has_id issue_id) xs
    \<Longrightarrow> patch_first issue_id body xs = Inr xs"
proof (induction xs)
  case Nil
  then show ?case by simp
next
  case (Cons x xs)
  from Cons.prems(1) have "issue_record x" by simp
  then obtain d s where x: "x = VDict d" "map_of d ''id'' = Some (VStr s)"
    using issue_record_dict by blast
  from Cons.prems(2) x have "\<not> py_eq (VStr s) issue_id" by simp
  moreover from Cons have "patch_first issue_id body xs = Inr xs" by simp
  ultimately show ?case using x by simp
qed

lemma patch_first_hit:
  "list_all issue_record pre \<Longrightarrow> \<not> list_ex (has_id issue_id) pre \<Longrightarrow> has_id issue_id (VDict d)
    \<Longrightarrow> patch_first issue_id body (pre @ VDict d # post) =
        (case body d of Inl e \<Rightarrow> Inl e | Inr d' \<Rightarrow> Inr (pre @ VDict d' # post))"
proof (induction pre)
  case Nil
  then show ?case by (auto split: option.splits sum.splits)
next
  case (Cons x pre)
  from Cons.prems(1) have "issue_record x" by simp
  then obtain dx s where x: "x = VDict dx" "map_of dx ''id'' = Some (VStr s)"
    using issue_record_dict by blast
  from Cons.prems(2) x have ne: "\<not> py_eq (VStr s) issue_id" by simp
  from Cons have ih: "patch_first issue_id body (pre @ VDict d # post) =
        (case body d of Inl e \<Rightarrow> Inl e | Inr d' \<Rightarrow> Inr (pre @ VDict d' # post))" by simp
  show ?case using x ne ih by (simp split: sum.splits)
qed

lemma first_match_split:
  "list_ex (has_id issue_id) xs \<Longrightarrow>
     \<exists>pre d post. xs = pre @ VDict d # post \<and> \<not> list_ex (has_id issue_id) pre
       \<and> has_id issue_id (VDict d)"
proof (induction xs)
  case Nil
  then show ?case by simp
next
  case (Cons x xs)
  show ?case
  proof (cases "has_id issue_id x")
    case True
    then obtain d where "x = VDict d" by (cases x) simp_all
    with True have "x # xs = [] @ VDict d # xs \<and> \<not> list_ex (has_id issue_id) []
        \<and> has_id issue_id (VDict d)" by simp
    then show ?thesis by blast
  next
    case False
    with Cons.prems have "list_ex (has_id issue_id) xs" by simp
    then obtain pre d post where s: "xs = pre @ VDict d # post"
        "\<not> list_ex (has_id issue_id) pre" "has_id issue_id (VDict d)"
      using Cons.IH by blast
    with False have "x # xs = (x # pre) @ VDict d # post
        \<and> \<not> list_ex (has_id issue_id) (x # pre) \<and> has_id issue_id (VDict d)" by simp
    then show ?thesis by blast
  qed
qed

lemma patch_data_miss:
  "list_all issue_record xs \<Longrightarrow> \<not> list_ex (has_id issue_id) xs
    \<Longrightarrow> patch_data issue_id body (VList xs) = Inr (VList xs)"
  by (simp add: patch_data_def patch_first_miss)

lemma patch_data_hit:
  "list_all issue_record pre \<Longrightarrow> \<not> list_ex (has_id issue_id) pre \<Longrightarrow> has_id issue_id (VDict d)
    \<Longrightarrow> patch_data issue_id body (VList (pre @ VDict d # post)) =
        (case body d of Inl e \<Rightarrow> Inl e | Inr d' \<Rightarrow> Inr (VList (pre @ VDict d' # post)))"
  by (simp add: patch_data_def patch_first_hit split: sum.splits)



lemma add_update_body_record:
  assumes "issue_record (VDict d)"
  shows "add_update_body now msg status d =
    Inr (let it1 = AList.update ''updates''
              (VList (updates_of d @
                 [VDict [(''ts'', VInt now), (''text'', VStr msg),
                    (''status'', status_or status (py_get_default d ''status'' (VStr ''open'')))]])) d
         in case status of
              None \<Rightarrow> it1
            | Some s \<Rightarrow> if s = [] then it1 else AList.update ''status'' (VStr s) it1)"
proof -
  from assms have "is_list (py_get_default d ''updates'' (VList []))" by simp
  then obtain us where "py_get_default d ''updates'' (VList []) = VList us"
    by (auto simp: is_list_iff)
  then show ?thesis by (simp add: add_update_body_def updates_of_def Let_def)
qed


lemma add_update_hit:
  assumes "load_data f = Inr (VList (pre @ VDict d # post))"
    and "list_all issue_record pre" and "issue_record (VDict d)"
    and "\<not> list_ex (has_id issue_id) pre" and "has_id issue_id (VDict d)"
  shows "add_update now issue_id msg status f =
    Inr (save_data (VList (pre @
      VDict (let it1 = AList.update ''updates''
              (VList (updates_of d @
                 [VDict [(''ts'', VInt now), (''text'', VStr msg),
                    (''status'', status_or status (py_get_default d ''status'' (VStr ''open'')))]])) d
         in case status of
              None \<Rightarrow> it1
            | Some s \<Rightarrow> if s = [] then it1 else AList.update ''status'' (VStr s) it1) # post)))"
  using assms by (simp add: add_update_def patch_data_hit add_update_body_record)



section \<open>Facts about the submit handler\<close>




lemma has_id_VStr: "has_id (VStr u) x \<longleftrightarrow> id_of x = VStr u"
proof (cases x)
  case (VDict d)
  then show ?thesis
    by (cases "map_of d ''id''") (simp_all add: py_get_def py_eq_VStr)
qed simp_all



section \<open>Facts about the delete button\<close>

lemma remove_id_records:
  assumes "map_of it ''id'' = Some (VStr u)"
  shows "list_all issue_record xs \<Longrightarrow>
    remove_id it xs = Inr (filter (\<lambda>x. id_of x \<noteq> VStr u) xs)"
proof (induction xs)
  case Nil
  then show ?case by simp
next
  case (Cons x xs)
  from Cons.prems have "issue_record x" by simp
  then obtain d s where x: "x = VDict d" "map_of d ''id'' = Some (VStr s)"
    using issue_record_dict by blast
  from Cons have ih: "remove_id it xs = Inr (filter (\<lambda>x. id_of x \<noteq> VStr u) xs)" by simp
  from x assms ih show ?case by (simp add: py_get_def)
qed

lemma delete_button_owner:
  assumes "load_data f = Inr (VList xs)" and "list_all issue_record xs"
    and "map_of it ''id'' = Some (VStr u)"
  shows "delete_button it requester True f =
    Inr (if py_get it ''created_by'' = VStr requester
         then save_data (VList (filter (\<lambda>x. id_of x \<noteq> VStr u) xs)) else f)"
  using assms by (simp add: delete_button_def py_eq_VStr remove_id_records)

section \<open>Facts about filtering and ordering\<close>

lemma starts_with_iff: "starts_with s sub \<longleftrightarrow> (\<exists>post. s = sub @ post)"
proof
  assume "starts_with s sub"
  then have "take (length sub) s = sub" by (simp add: starts_with_def)
  then have "s = sub @ drop (length sub) s" by (metis append_take_drop_id)
  then show "\<exists>post. s = sub @ post" ..
next
  assume "\<exists>post. s = sub @ post"
  then show "starts_with s sub" by (auto simp: starts_with_def)
qed

lemma py_in_iff: "py_in sub s \<longleftrightarrow> (\<exists>pre post. s = pre @ sub @ post)"
proof (induction s)
  case Nil
  then show ?case by simp
next
  case (Cons c cs)
  show ?case
  proof
    assume "py_in sub (c # cs)"
    then consider "starts_with (c # cs) sub" | "py_in sub cs" by auto
    then show "\<exists>pre post. c # cs = pre @ sub @ post"
    proof cases
      case 1
      then obtain post where "c # cs = sub @ post" by (auto simp: starts_with_iff)
      then have "c # cs = [] @ sub @ post" by simp
      then show ?thesis by blast
    next
      case 2
      with Cons.IH obtain pre post where "cs = pre @ sub @ post" by blast
      then have "c # cs = (c # pre) @ sub @ post" by simp
      then show ?thesis by blast
    qed
  next
    assume "\<exists>pre post. c # cs = pre @ sub @ post"
    then obtain pre post where s: "c # cs = pre @ sub @ post" by blast
    show "py_in sub (c # cs)"
    proof (cases pre)
      case Nil
      with s have "starts_with (c # cs) sub" by (auto simp: starts_with_iff)
      then show ?thesis by simp
    next
      case (Cons a pre')
      with s have "cs = pre' @ sub @ post" by simp
      with Cons.IH have "py_in sub cs" by blast
      then show ?thesis by simp
    qed
  qed
qed

lemma filter_items_dicts:
  "filter_items repr c user_id (map VDict its)
     = Inr (map VDict (filter (matches repr c user_id) its))"
  by (induction its) (simp_all add: matches_value_def)

lemma sort_key_of_listable: "listable x \<Longrightarrow> sort_key_of x = Inr (display_key x)"
  by (auto simp: listable_def is_int_iff is_str_iff sort_key_of_def display_key_def is_open_def
      votes_of_def created_at_of_def)

lemma keyed_listable:
  "list_all listable xs \<Longrightarrow> keyed xs = Inr (map (\<lambda>x. (display_key x, x)) xs)"
  by (induction xs) (simp_all add: sort_key_of_listable)

lemma insort_key_paired:
  "insort_key fst (f x, x) (map (\<lambda>x. (f x, x)) ys) = map (\<lambda>x. (f x, x)) (insort_key f x ys)"
  by (induction ys) simp_all

lemma sort_key_paired:
  "sort_key fst (map (\<lambda>x. (f x, x)) xs) = map (\<lambda>x. (f x, x)) (sort_key f xs)"
  by (induction xs) (simp_all add: insort_key_paired)

lemma sorted_for_display_listable:
  "list_all listable xs \<Longrightarrow> sorted_for_display xs = Inr (sort_key display_key xs)"
  by (simp add: sorted_for_display_def keyed_listable sort_key_paired comp_def)

lemma display_key_le:
  "display_key a \<le> display_key b \<longleftrightarrow>
     (is_open a \<and> \<not> is_open b)
     \<or> (is_open a = is_open b
        \<and> (votes_of b < votes_of a
           \<or> (votes_of a = votes_of b \<and> created_at_of a \<le> created_at_of b)))"
  by (auto simp: display_key_def less_eq_prod_def less_prod_def)

lemma display_key_eq:
  "display_key x = (\<not> b, - of_int v, c) \<longleftrightarrow> is_open x = b \<and> votes_of x = v \<and> created_at_of x = c"
  by (auto simp: display_key_def)

section \<open>Reading the collection\<close>

text \<open>
  C7, as stated: whenever the stored collection is unreadable or malformed, \<open>load_data\<close>
  returns the empty collection. It does not: only \<^verbatim>\<open>json.JSONDecodeError\<close> is caught, so a
  file whose bytes are not UTF-8 text makes \<open>load_data\<close> raise \<^verbatim>\<open>UnicodeDecodeError\<close>.
\<close>

theorem load_data_raises_on_undecodable_file:
  "load_data (Broken UnicodeDecodeError) = Inl UnicodeDecodeError"
  by simp

text \<open>
  C7, amended: \<open>load_data\<close> returns the empty collection when no file exists and when the
  file's text is not valid JSON (\<^verbatim>\<open>JSONDecodeError\<close>); these two and a file that stores the
  empty list are the only states in which it returns the empty collection.
\<close>

theorem load_data_empty_collection:
  "load_data Missing = Inr (VList [])
   \<and> load_data (Broken JSONDecodeError) = Inr (VList [])
   \<and> (load_data f = Inr (VList []) \<longleftrightarrow>
        f = Missing \<or> f = Broken JSONDecodeError \<or> f = Stored (VList []))"
  by (cases f) auto

section \<open>Mutations that target an unknown id\<close>

text \<open>
  C9: when no record of the collection has the id, \<open>upvote_issue\<close>, \<open>add_update\<close> and
  \<open>update_issue\<close> (the coordinate back-fill) each return normally, and what they save is the
  collection they loaded.
\<close>

theorem unknown_id_is_noop:
  assumes "load_data f = Inr (VList xs)"
    and "list_all issue_record xs"
    and "\<not> list_ex (has_id issue_id) xs"
  shows "upvote_issue issue_id f = Inr (save_data (VList xs))
       \<and> add_update now issue_id msg status f = Inr (save_data (VList xs))
       \<and> update_issue issue_id patch f = Inr (save_data (VList xs))"
  using assms by (simp add: upvote_issue_def add_update_def update_issue_def patch_data_miss)

theorem unknown_id_is_noop_witness:
  "load_data (Stored (VList [VDict [(''id'', VStr ''a''), (''votes'', VInt 2)]]))
     = Inr (VList [VDict [(''id'', VStr ''a''), (''votes'', VInt 2)]])
   \<and> list_all issue_record [VDict [(''id'', VStr ''a''), (''votes'', VInt 2)]]
   \<and> \<not> list_ex (has_id (VStr ''zz'')) [VDict [(''id'', VStr ''a''), (''votes'', VInt 2)]]
   \<and> upvote_issue (VStr ''zz'') (Stored (VList [VDict [(''id'', VStr ''a''), (''votes'', VInt 2)]]))
       = Inr (Stored (VList [VDict [(''id'', VStr ''a''), (''votes'', VInt 2)]]))
   \<and> add_update 17 (VStr ''zz'') ''Crew dispatched'' (Some ''in_progress'')
         (Stored (VList [VDict [(''id'', VStr ''a''), (''votes'', VInt 2)]]))
       = Inr (Stored (VList [VDict [(''id'', VStr ''a''), (''votes'', VInt 2)]]))
   \<and> update_issue (VStr ''zz'') [(''lat'', VFloat 1), (''lng'', VFloat 2)]
         (Stored (VList [VDict [(''id'', VStr ''a''), (''votes'', VInt 2)]]))
       = Inr (Stored (VList [VDict [(''id'', VStr ''a''), (''votes'', VInt 2)]]))"
proof -
  let ?xs = "[VDict [(''id'', VStr ''a''), (''votes'', VInt 2)]]"
  have h1: "load_data (Stored (VList ?xs)) = Inr (VList ?xs)" by simp
  have h2: "list_all issue_record ?xs" by (simp add: py_get_def py_get_default_def)
  have h3: "\<not> list_ex (has_id (VStr ''zz'')) ?xs" by simp
  show ?thesis
    using h1 h2 h3
      unknown_id_is_noop [OF h1 h2 h3, where now = 17 and msg = "''Crew dispatched''"
        and status = "Some ''in_progress''" and patch = "[(''lat'', VFloat 1), (''lng'', VFloat 2)]"]
    by (simp add: save_data_def)
qed

section \<open>Upvoting\<close>



section \<open>Appending an update\<close>

text \<open>
  C3: let \<open>d\<close> be the first record of the collection that has the id. \<open>add_update\<close> saves the
  collection with exactly one entry appended to \<open>d\<close>'s updates. Given a status (a string that
  is not empty), the entry carries it and \<open>d\<close>'s status is overwritten with it, whatever the
  status was before; with the status omitted, the entry carries \<^verbatim>\<open>d.get("status", "open")\<close> and
  \<open>d\<close>'s status is left as it was.
\<close>

theorem add_update_appends_entry:
  assumes "load_data f = Inr (VList (pre @ VDict d # post))"
    and "list_all issue_record (pre @ VDict d # post)"
    and "\<not> list_ex (has_id issue_id) pre"
    and "has_id issue_id (VDict d)"
  shows "(\<forall>s. s \<noteq> [] \<longrightarrow>
            add_update now issue_id msg (Some s) f =
              Inr (save_data (VList (pre @
                VDict (AList.update ''status'' (VStr s)
                  (AList.update ''updates''
                    (VList (updates_of d @
                      [VDict [(''ts'', VInt now), (''text'', VStr msg), (''status'', VStr s)]]))
                    d)) # post))))
       \<and> add_update now issue_id msg None f =
              Inr (save_data (VList (pre @
                VDict (AList.update ''updates''
                    (VList (updates_of d @
                      [VDict [(''ts'', VInt now), (''text'', VStr msg),
                         (''status'', py_get_default d ''status'' (VStr ''open''))]]))
                    d) # post)))
       \<and> (\<forall>u. map_of (AList.update ''updates'' u d) ''status'' = map_of d ''status'')
       \<and> (\<forall>s u. py_get (AList.update ''status'' (VStr s) u) ''status'' = VStr s)"
proof -
  from assms(2) have pre: "list_all issue_record pre" and d: "issue_record (VDict d)"
    by simp_all
  note hit = add_update_hit [OF assms(1) pre d assms(3) assms(4)]
  have given: "\<forall>s. s \<noteq> [] \<longrightarrow>
            add_update now issue_id msg (Some s) f =
              Inr (save_data (VList (pre @
                VDict (AList.update ''status'' (VStr s)
                  (AList.update ''updates''
                    (VList (updates_of d @
                      [VDict [(''ts'', VInt now), (''text'', VStr msg), (''status'', VStr s)]]))
                    d)) # post)))"
    by (simp add: hit status_or_def)
  have omitted: "add_update now issue_id msg None f =
              Inr (save_data (VList (pre @
                VDict (AList.update ''updates''
                    (VList (updates_of d @
                      [VDict [(''ts'', VInt now), (''text'', VStr msg),
                         (''status'', py_get_default d ''status'' (VStr ''open''))]]))
                    d) # post)))"
    by (simp add: hit status_or_def)
  have frame: "\<forall>u. map_of (AList.update ''updates'' u d) ''status'' = map_of d ''status''"
    by (simp add: update_conv')
  have field: "\<forall>s u. py_get (AList.update ''status'' (VStr s) u) ''status'' = VStr s"
    by (simp add: py_get_def update_conv')
  from given omitted frame field show ?thesis by blast
qed

theorem add_update_appends_entry_witness:
  "load_data (Stored (VList [VDict [(''id'', VStr ''X''), (''status'', VStr ''resolved''),
       (''updates'', VList [VDict [(''ts'', VInt 1), (''text'', VStr ''Issue reported''),
          (''status'', VStr ''open'')]])]]))
     = Inr (VList ([] @ VDict [(''id'', VStr ''X''), (''status'', VStr ''resolved''),
       (''updates'', VList [VDict [(''ts'', VInt 1), (''text'', VStr ''Issue reported''),
          (''status'', VStr ''open'')]])] # []))
   \<and> list_all issue_record ([] @ VDict [(''id'', VStr ''X''), (''status'', VStr ''resolved''),
       (''updates'', VList [VDict [(''ts'', VInt 1), (''text'', VStr ''Issue reported''),
          (''status'', VStr ''open'')]])] # [])
   \<and> \<not> list_ex (has_id (VStr ''X'')) []
   \<and> has_id (VStr ''X'') (VDict [(''id'', VStr ''X''), (''status'', VStr ''resolved''),
       (''updates'', VList [VDict [(''ts'', VInt 1), (''text'', VStr ''Issue reported''),
          (''status'', VStr ''open'')]])])
   \<and> add_update 17 (VStr ''X'') ''Reopened'' (Some ''open'')
        (Stored (VList [VDict [(''id'', VStr ''X''), (''status'', VStr ''resolved''),
          (''updates'', VList [VDict [(''ts'', VInt 1), (''text'', VStr ''Issue reported''),
             (''status'', VStr ''open'')]])]]))
      = Inr (Stored (VList [VDict [(''id'', VStr ''X''), (''status'', VStr ''open''),
          (''updates'', VList [VDict [(''ts'', VInt 1), (''text'', VStr ''Issue reported''),
             (''status'', VStr ''open'')],
            VDict [(''ts'', VInt 17), (''text'', VStr ''Reopened''), (''status'', VStr ''open'')]])]]))
   \<and> add_update 17 (VStr ''X'') ''Reopened'' None
        (Stored (VList [VDict [(''id'', VStr ''X''), (''status'', VStr ''resolved''),
          (''updates'', VList [VDict [(''ts'', VInt 1), (''text'', VStr ''Issue reported''),
             (''status'', VStr ''open'')]])]]))
      = Inr (Stored (VList [VDict [(''id'', VStr ''X''), (''status'', VStr ''resolved''),
          (''updates'', VList [VDict [(''ts'', VInt 1), (''text'', VStr ''Issue reported''),
             (''status'', VStr ''open'')],
            VDict [(''ts'', VInt 17), (''text'', VStr ''Reopened''),
              (''status'', VStr ''resolved'')]])]]))"
proof -
  let ?d = "[(''id'', VStr ''X''), (''status'', VStr ''resolved''),
       (''updates'', VList [VDict [(''ts'', VInt 1), (''text'', VStr ''Issue reported''),
          (''status'', VStr ''open'')]])]"
  let ?f = "Stored (VList [VDict ?d])"
  have h1: "load_data ?f = Inr (VList ([] @ VDict ?d # []))" by simp
  have h2: "list_all issue_record ([] @ VDict ?d # [])"
    by (simp add: py_get_def py_get_default_def)
  have h3: "\<not> list_ex (has_id (VStr ''X'')) []" by simp
  have h4: "has_id (VStr ''X'') (VDict ?d)" by simp
  have u: "updates_of ?d = [VDict [(''ts'', VInt 1), (''text'', VStr ''Issue reported''),
          (''status'', VStr ''open'')]]"
    by (simp add: updates_of_def py_get_default_def)
  have ne: "''open'' \<noteq> []" by simp
  note inst = add_update_appends_entry [OF h1 h2 h3 h4, of 17 "''Reopened''"]
  from inst ne have given: "add_update 17 (VStr ''X'') ''Reopened'' (Some ''open'') ?f =
      Inr (save_data (VList ([] @
                VDict (AList.update ''status'' (VStr ''open'')
                  (AList.update ''updates''
                    (VList (updates_of ?d @
                      [VDict [(''ts'', VInt 17), (''text'', VStr ''Reopened''),
                         (''status'', VStr ''open'')]]))
                    ?d)) # [])))"
    by blast
  from inst have omitted: "add_update 17 (VStr ''X'') ''Reopened'' None ?f =
      Inr (save_data (VList ([] @
                VDict (AList.update ''updates''
                    (VList (updates_of ?d @
                      [VDict [(''ts'', VInt 17), (''text'', VStr ''Reopened''),
                         (''status'', py_get_default ?d ''status'' (VStr ''open''))]]))
                    ?d) # [])))"
    by blast
  from given omitted u h1 h2 h3 h4 show ?thesis
    by (simp add: save_data_def py_get_default_def)
qed

text \<open>
  C10: an empty string as status is falsy, so \<open>add_update\<close> with it does what \<open>add_update\<close>
  does with the status omitted: the appended entry carries \<^verbatim>\<open>d.get("status", "open")\<close> and the
  record's status is left as it was.
\<close>

theorem empty_status_is_omitted:
  assumes "load_data f = Inr (VList (pre @ VDict d # post))"
    and "list_all issue_record (pre @ VDict d # post)"
    and "\<not> list_ex (has_id issue_id) pre"
    and "has_id issue_id (VDict d)"
  shows "add_update now issue_id msg (Some []) f = add_update now issue_id msg None f
       \<and> add_update now issue_id msg (Some []) f =
              Inr (save_data (VList (pre @
                VDict (AList.update ''updates''
                    (VList (updates_of d @
                      [VDict [(''ts'', VInt now), (''text'', VStr msg),
                         (''status'', py_get_default d ''status'' (VStr ''open''))]]))
                    d) # post)))
       \<and> (\<forall>u. map_of (AList.update ''updates'' u d) ''status'' = map_of d ''status'')"
proof -
  from assms(2) have pre: "list_all issue_record pre" and d: "issue_record (VDict d)"
    by simp_all
  note hit = add_update_hit [OF assms(1) pre d assms(3) assms(4)]
  have same: "add_update now issue_id msg (Some []) f = add_update now issue_id msg None f"
    by (simp add: hit status_or_def)
  have effect: "add_update now issue_id msg (Some []) f =
              Inr (save_data (VList (pre @
                VDict (AList.update ''updates''
                    (VList (updates_of d @
                      [VDict [(''ts'', VInt now), (''text'', VStr msg),
                         (''status'', py_get_default d ''status'' (VStr ''open''))]]))
                    d) # post)))"
    by (simp add: hit status_or_def)
  have frame: "\<forall>u. map_of (AList.update ''updates'' u d) ''status'' = map_of d ''status''"
    by (simp add: update_conv')
  from same effect frame show ?thesis by blast
qed

theorem empty_status_is_omitted_witness:
  "load_data (Stored (VList [VDict [(''id'', VStr ''X''), (''title'', VStr ''Pothole'')]]))
     = Inr (VList ([] @ VDict [(''id'', VStr ''X''), (''title'', VStr ''Pothole'')] # []))
   \<and> list_all issue_record ([] @ VDict [(''id'', VStr ''X''), (''title'', VStr ''Pothole'')] # [])
   \<and> \<not> list_ex (has_id (VStr ''X'')) []
   \<and> has_id (VStr ''X'') (VDict [(''id'', VStr ''X''), (''title'', VStr ''Pothole'')])
   \<and> add_update 17 (VStr ''X'') ''Seen'' (Some [])
        (Stored (VList [VDict [(''id'', VStr ''X''), (''title'', VStr ''Pothole'')]]))
      = Inr (Stored (VList [VDict [(''id'', VStr ''X''), (''title'', VStr ''Pothole''),
          (''updates'', VList [VDict [(''ts'', VInt 17), (''text'', VStr ''Seen''),
             (''status'', VStr ''open'')]])]]))
   \<and> add_update 17 (VStr ''X'') ''Seen'' None
        (Stored (VList [VDict [(''id'', VStr ''X''), (''title'', VStr ''Pothole'')]]))
      = Inr (Stored (VList [VDict [(''id'', VStr ''X''), (''title'', VStr ''Pothole''),
          (''updates'', VList [VDict [(''ts'', VInt 17), (''text'', VStr ''Seen''),
             (''status'', VStr ''open'')]])]]))"
proof -
  let ?d = "[(''id'', VStr ''X''), (''title'', VStr ''Pothole'')]"
  let ?f = "Stored (VList [VDict ?d])"
  have h1: "load_data ?f = Inr (VList ([] @ VDict ?d # []))" by simp
  have h2: "list_all issue_record ([] @ VDict ?d # [])"
    by (simp add: py_get_def py_get_default_def)
  have h3: "\<not> list_ex (has_id (VStr ''X'')) []" by simp
  have h4: "has_id (VStr ''X'') (VDict ?d)" by simp
  have u: "updates_of ?d = []" by (simp add: updates_of_def py_get_default_def)
  note inst = empty_status_is_omitted [OF h1 h2 h3 h4, of 17 "''Seen''"]
  from inst have same: "add_update 17 (VStr ''X'') ''Seen'' (Some []) ?f
      = add_update 17 (VStr ''X'') ''Seen'' None ?f"
    by blast
  from inst have effect: "add_update 17 (VStr ''X'') ''Seen'' (Some []) ?f =
      Inr (save_data (VList ([] @
                VDict (AList.update ''updates''
                    (VList (updates_of ?d @
                      [VDict [(''ts'', VInt 17), (''text'', VStr ''Seen''),
                         (''status'', py_get_default ?d ''status'' (VStr ''open''))]]))
                    ?d) # [])))"
    by blast
  from effect have e2: "add_update 17 (VStr ''X'') ''Seen'' (Some []) ?f =
      Inr (Stored (VList [VDict [(''id'', VStr ''X''), (''title'', VStr ''Pothole''),
          (''updates'', VList [VDict [(''ts'', VInt 17), (''text'', VStr ''Seen''),
             (''status'', VStr ''open'')]])]]))"
    by (simp add: u save_data_def py_get_default_def)
  from e2 same h1 h2 h3 h4 show ?thesis by simp
qed

section \<open>Creating a record\<close>




text \<open>
  C8: a submission whose stripped title or stripped description is empty is answered with the
  error notice, and nothing changes: not the collection file, not the upload directory, not
  the session, not the geocode cache.
\<close>

theorem empty_title_or_description_rejected:
  assumes "strip (title fm) = [] \<or> strip (description fm) = []"
  shows "submit_report e fm w = (Inr [Error ''Please fill Title and Description.''], w)"
  using assms by (simp add: submit_report_def)

theorem empty_title_or_description_rejected_witness:
  "(strip (title \<lparr>title = ''   '', description = ''Large pothole'',
       category = ''roads'', address = [], image_file = Some \<lparr>name_suffix = ''.png'', buffer = ''abc''\<rparr>,
       lat = 12.97, lng = 77.59\<rparr>) = []
    \<or> strip (description \<lparr>title = ''   '', description = ''Large pothole'',
       category = ''roads'', address = [], image_file = Some \<lparr>name_suffix = ''.png'', buffer = ''abc''\<rparr>,
       lat = 12.97, lng = 77.59\<rparr>) = [])
   \<and> submit_report
        \<lparr>uuid_user = ''U9'', uuid_issue = ''I2'', now_iso = ''2024-05-01T10:00:00'',
         now_ms = 1714557600000, upload_dir = ''uploads'', geocode = (\<lambda>s. None)\<rparr>
        \<lparr>title = ''   '', description = ''Large pothole'',
         category = ''roads'', address = [], image_file = Some \<lparr>name_suffix = ''.png'', buffer = ''abc''\<rparr>,
         lat = 12.97, lng = 77.59\<rparr>
        \<lparr>db = Stored (VList [VDict [(''id'', VStr ''I1''), (''votes'', VInt 4)]]),
         uploads = [], session_user_id = None, geocode_cache = []\<rparr>
      = (Inr [Error ''Please fill Title and Description.''],
         \<lparr>db = Stored (VList [VDict [(''id'', VStr ''I1''), (''votes'', VInt 4)]]),
         uploads = [], session_user_id = None, geocode_cache = []\<rparr>)"
proof -
  let ?fm = "\<lparr>title = ''   '', description = ''Large pothole'',
         category = ''roads'', address = [], image_file = Some \<lparr>name_suffix = ''.png'', buffer = ''abc''\<rparr>,
         lat = 12.97, lng = 77.59\<rparr>"
  have t: "strip ''   '' = []" by (simp add: strip_def is_space_def)
  then have h: "strip (title ?fm) = [] \<or> strip (description ?fm) = []" by simp
  from empty_title_or_description_rejected [OF h] h show ?thesis by blast
qed

section \<open>Deleting a record\<close>

text \<open>
  C4: \<open>it\<close> is a record of the collection and \<open>requester\<close> the session's user id. Pressing
  delete saves the collection without the records that have \<open>it\<close>'s id, every other record
  kept in place, exactly when \<open>it\<close>'s \<^verbatim>\<open>created_by\<close> equals \<open>requester\<close>: the button exists for no
  one else. For any other requester the file is left as it is, so loading it still gives the
  collection with \<open>it\<close> in it. Without a press nothing happens.
\<close>

theorem delete_only_by_creator:
  assumes "load_data f = Inr (VList xs)" and "list_all issue_record xs"
    and "VDict it \<in> set xs" and "map_of it ''id'' = Some (VStr u)"
  shows "delete_button it requester True f =
           Inr (if py_get it ''created_by'' = VStr requester
                then save_data (VList (filter (\<lambda>x. id_of x \<noteq> VStr u) xs)) else f)
       \<and> VDict it \<notin> set (filter (\<lambda>x. id_of x \<noteq> VStr u) xs)
       \<and> VStr u \<notin> id_of ` set (filter (\<lambda>x. id_of x \<noteq> VStr u) xs)
       \<and> (\<forall>x\<in>set xs. id_of x \<noteq> VStr u \<longrightarrow> x \<in> set (filter (\<lambda>x. id_of x \<noteq> VStr u) xs))
       \<and> (py_get it ''created_by'' \<noteq> VStr requester \<longrightarrow>
            (\<exists>f'. delete_button it requester True f = Inr f'
               \<and> load_data f' = Inr (VList xs) \<and> VDict it \<in> set xs))
       \<and> delete_button it requester False f = Inr f"
proof -
  have a: "delete_button it requester True f =
           Inr (if py_get it ''created_by'' = VStr requester
                then save_data (VList (filter (\<lambda>x. id_of x \<noteq> VStr u) xs)) else f)"
    using assms(1) assms(2) assms(4) by (rule delete_button_owner)
  from assms(4) have "id_of (VDict it) = VStr u" by (simp add: py_get_def)
  then have b: "VDict it \<notin> set (filter (\<lambda>x. id_of x \<noteq> VStr u) xs)" by auto
  have c: "VStr u \<notin> id_of ` set (filter (\<lambda>x. id_of x \<noteq> VStr u) xs)" by auto
  have d: "\<forall>x\<in>set xs. id_of x \<noteq> VStr u \<longrightarrow> x \<in> set (filter (\<lambda>x. id_of x \<noteq> VStr u) xs)"
    by simp
  have e: "py_get it ''created_by'' \<noteq> VStr requester \<longrightarrow>
            (\<exists>f'. delete_button it requester True f = Inr f'
               \<and> load_data f' = Inr (VList xs) \<and> VDict it \<in> set xs)"
    using a assms(1) assms(3) by simp
  have g: "delete_button it requester False f = Inr f" by (simp add: delete_button_def)
  from a b c d e g show ?thesis by blast
qed

theorem delete_only_by_creator_witness:
  "load_data (Stored (VList [VDict [(''id'', VStr ''X''), (''created_by'', VStr ''user-7'')],
       VDict [(''id'', VStr ''Y''), (''created_by'', VStr ''user-42'')]]))
     = Inr (VList [VDict [(''id'', VStr ''X''), (''created_by'', VStr ''user-7'')],
       VDict [(''id'', VStr ''Y''), (''created_by'', VStr ''user-42'')]])
   \<and> list_all issue_record [VDict [(''id'', VStr ''X''), (''created_by'', VStr ''user-7'')],
       VDict [(''id'', VStr ''Y''), (''created_by'', VStr ''user-42'')]]
   \<and> VDict [(''id'', VStr ''X''), (''created_by'', VStr ''user-7'')]
       \<in> set [VDict [(''id'', VStr ''X''), (''created_by'', VStr ''user-7'')],
            VDict [(''id'', VStr ''Y''), (''created_by'', VStr ''user-42'')]]
   \<and> map_of [(''id'', VStr ''X''), (''created_by'', VStr ''user-7'')] ''id'' = Some (VStr ''X'')
   \<and> delete_button [(''id'', VStr ''X''), (''created_by'', VStr ''user-7'')] ''user-42'' True
        (Stored (VList [VDict [(''id'', VStr ''X''), (''created_by'', VStr ''user-7'')],
           VDict [(''id'', VStr ''Y''), (''created_by'', VStr ''user-42'')]]))
      = Inr (Stored (VList [VDict [(''id'', VStr ''X''), (''created_by'', VStr ''user-7'')],
           VDict [(''id'', VStr ''Y''), (''created_by'', VStr ''user-42'')]]))
   \<and> delete_button [(''id'', VStr ''X''), (''created_by'', VStr ''user-7'')] ''user-7'' True
        (Stored (VList [VDict [(''id'', VStr ''X''), (''created_by'', VStr ''user-7'')],
           VDict [(''id'', VStr ''Y''), (''created_by'', VStr ''user-42'')]]))
      = Inr (Stored (VList [VDict [(''id'', VStr ''Y''), (''created_by'', VStr ''user-42'')]]))"
proof -
  let ?it = "[(''id'', VStr ''X''), (''created_by'', VStr ''user-7'')]"
  let ?xs = "[VDict ?it, VDict [(''id'', VStr ''Y''), (''created_by'', VStr ''user-42'')]]"
  let ?f = "Stored (VList ?xs)"
  have h1: "load_data ?f = Inr (VList ?xs)" by simp
  have h2: "list_all issue_record ?xs" by (simp add: py_get_def py_get_default_def)
  have h3: "VDict ?it \<in> set ?xs" by simp
  have h4: "map_of ?it ''id'' = Some (VStr ''X'')" by simp
  from delete_only_by_creator [OF h1 h2 h3 h4, of "''user-42''"]
  have other: "delete_button ?it ''user-42'' True ?f =
           Inr (if py_get ?it ''created_by'' = VStr ''user-42''
                then save_data (VList (filter (\<lambda>x. id_of x \<noteq> VStr ''X'') ?xs)) else ?f)"
    by blast
  from delete_only_by_creator [OF h1 h2 h3 h4, of "''user-7''"]
  have owner: "delete_button ?it ''user-7'' True ?f =
           Inr (if py_get ?it ''created_by'' = VStr ''user-7''
                then save_data (VList (filter (\<lambda>x. id_of x \<noteq> VStr ''X'') ?xs)) else ?f)"
    by blast
  from other owner h1 h2 h3 h4 show ?thesis by (simp add: py_get_def save_data_def)
qed

section \<open>Filtering\<close>

text \<open>
  C6, as stated: with a non-empty search text a record is kept exactly when the lowercased
  text is a substring of the lowercased concatenation of title, description and address (the
  other conditions holding). It is not: \<open>blob\<close> puts a space between the fields. The query
  \<^verbatim>\<open>abcd\<close> is a substring of the concatenation of the title \<^verbatim>\<open>ab\<close>, the description \<^verbatim>\<open>cd\<close> and
  the empty address, no other criterion is set, and the record is dropped.
\<close>

theorem spaces_between_fields_change_the_match:
  "py_in (lower ''abcd'') (lower (''ab'' @ ''cd'' @ ''''))
   \<and> \<not> matches (\<lambda>v. []) \<lparr>cat = ''all'', stt = ''all'', q = ''abcd'', only_mine = False\<rparr> ''u''
        [(''title'', VStr ''ab''), (''description'', VStr ''cd''), (''address'', VStr '''')]
   \<and> filtered (\<lambda>v. []) \<lparr>cat = ''all'', stt = ''all'', q = ''abcd'', only_mine = False\<rparr> ''u''
        (VList [VDict [(''title'', VStr ''ab''), (''description'', VStr ''cd''),
           (''address'', VStr '''')]])
      = Inr []"
  by (simp add: matches_def matches_value_def blob_def filtered_def py_format_def
      py_get_default_def lower_def char_lower_def starts_with_def)

text \<open>
  C6, amended: on a collection of dictionaries \<open>filtered\<close> keeps, in order, exactly the records
  that match, and a record matches exactly when its category is the criterion or the criterion
  is \<^verbatim>\<open>all\<close>, its status is the criterion or the criterion is \<^verbatim>\<open>all\<close>, the lowercased search
  text, when not empty, occurs in the lowercased text made of title, description and address
  joined by single spaces (an absent field is the empty string, a string field is itself), and,
  when only the user's own issues are asked for, its \<^verbatim>\<open>created_by\<close> is the user's id.
\<close>

theorem filter_keeps_matching_records:
  "filtered repr c user_id (VList (map VDict its))
     = Inr (map VDict (filter (matches repr c user_id) its))
   \<and> (matches repr c user_id it \<longleftrightarrow>
         (cat c = ''all'' \<or> py_get it ''category'' = VStr (cat c))
       \<and> (stt c = ''all'' \<or> py_get it ''status'' = VStr (stt c))
       \<and> (q c \<noteq> [] \<longrightarrow>
            (\<exists>pre post.
               lower (py_format repr (py_get_default it ''title'' (VStr [])) @ '' '' @
                      py_format repr (py_get_default it ''description'' (VStr [])) @ '' '' @
                      py_format repr (py_get_default it ''address'' (VStr [])))
               = pre @ lower (q c) @ post))
       \<and> (only_mine c \<longrightarrow> py_get it ''created_by'' = VStr user_id))
   \<and> py_format repr (VStr s) = s"
proof -
  have a: "filtered repr c user_id (VList (map VDict its))
      = Inr (map VDict (filter (matches repr c user_id) its))"
    by (simp add: filtered_def filter_items_dicts)
  have b: "matches repr c user_id it \<longleftrightarrow>
         (cat c = ''all'' \<or> py_get it ''category'' = VStr (cat c))
       \<and> (stt c = ''all'' \<or> py_get it ''status'' = VStr (stt c))
       \<and> (q c \<noteq> [] \<longrightarrow>
            (\<exists>pre post.
               lower (py_format repr (py_get_default it ''title'' (VStr [])) @ '' '' @
                      py_format repr (py_get_default it ''description'' (VStr [])) @ '' '' @
                      py_format repr (py_get_default it ''address'' (VStr [])))
               = pre @ lower (q c) @ post))
       \<and> (only_mine c \<longrightarrow> py_get it ''created_by'' = VStr user_id)"
    unfolding matches_def blob_def py_eq_VStr py_in_iff by auto
  have c: "py_format repr (VStr s) = s" by (simp add: py_format_def)
  from a b c show ?thesis by blast
qed

theorem filter_keeps_matching_records_witness:
  "filtered (\<lambda>v. []) \<lparr>cat = ''pothole'', stt = ''all'', q = ''Hole ON'', only_mine = True\<rparr>
       ''user-42''
       (VList (map VDict
          [[(''title'', VStr ''Pothole''), (''description'', VStr ''on Main St''),
            (''category'', VStr ''pothole''), (''status'', VStr ''open''),
            (''created_by'', VStr ''user-42''), (''address'', VStr ''5th Ave'')],
           [(''title'', VStr ''Pothole on Main St''), (''description'', VStr ''deep''),
            (''category'', VStr ''pothole''), (''status'', VStr ''open''),
            (''created_by'', VStr ''user-7''), (''address'', VStr ''5th Ave'')]]))
     = Inr [VDict [(''title'', VStr ''Pothole''), (''description'', VStr ''on Main St''),
            (''category'', VStr ''pothole''), (''status'', VStr ''open''),
            (''created_by'', VStr ''user-42''), (''address'', VStr ''5th Ave'')]]
   \<and> q \<lparr>cat = ''pothole'', stt = ''all'', q = ''Hole ON'', only_mine = True\<rparr> \<noteq> []
   \<and> only_mine \<lparr>cat = ''pothole'', stt = ''all'', q = ''Hole ON'', only_mine = True\<rparr>
   \<and> (\<exists>pre post. lower (''Pothole'' @ '' '' @ ''on Main St'' @ '' '' @ ''5th Ave'')
         = pre @ lower ''Hole ON'' @ post)"
proof -
  let ?c = "\<lparr>cat = ''pothole'', stt = ''all'', q = ''Hole ON'', only_mine = True\<rparr>"
  let ?it = "[(''title'', VStr ''Pothole''), (''description'', VStr ''on Main St''),
            (''category'', VStr ''pothole''), (''status'', VStr ''open''),
            (''created_by'', VStr ''user-42''), (''address'', VStr ''5th Ave'')]"
  let ?other = "[(''title'', VStr ''Pothole on Main St''), (''description'', VStr ''deep''),
            (''category'', VStr ''pothole''), (''status'', VStr ''open''),
            (''created_by'', VStr ''user-7''), (''address'', VStr ''5th Ave'')]"
  note inst = filter_keeps_matching_records
    [of "\<lambda>v. []" ?c "''user-42''" "[?it, ?other]" ?it "[]"]
  have m1: "matches (\<lambda>v. []) ?c ''user-42'' ?it"
    by code_simp
  have m2: "\<not> matches (\<lambda>v. []) ?c ''user-42'' ?other"
    by (simp add: matches_def py_get_def)
  have f: "py_format (\<lambda>v. []) (py_get_default ?it ''title'' (VStr [])) = ''Pothole''"
    "py_format (\<lambda>v. []) (py_get_default ?it ''description'' (VStr [])) = ''on Main St''"
    "py_format (\<lambda>v. []) (py_get_default ?it ''address'' (VStr [])) = ''5th Ave''"
    by (simp_all add: py_format_def py_get_default_def)
  from inst have a: "filtered (\<lambda>v. []) ?c ''user-42'' (VList (map VDict [?it, ?other]))
      = Inr (map VDict (filter (matches (\<lambda>v. []) ?c ''user-42'') [?it, ?other]))" by blast
  from inst m1 have "\<exists>pre post.
       lower (py_format (\<lambda>v. []) (py_get_default ?it ''title'' (VStr [])) @ '' '' @
              py_format (\<lambda>v. []) (py_get_default ?it ''description'' (VStr [])) @ '' '' @
              py_format (\<lambda>v. []) (py_get_default ?it ''address'' (VStr [])))
       = pre @ lower (q ?c) @ post" by simp
  then have b: "\<exists>pre post. lower (''Pothole'' @ '' '' @ ''on Main St'' @ '' '' @ ''5th Ave'')
         = pre @ lower ''Hole ON'' @ post"
    unfolding f by simp
  from a m1 m2 have a': "filtered (\<lambda>v. []) ?c ''user-42'' (VList (map VDict [?it, ?other]))
      = Inr [VDict ?it]" by simp
  from a' b show ?thesis by simp
qed

section \<open>Ordering for display\<close>

text \<open>
  C5, as stated: every record with status open or in_progress comes before every record with
  status resolved. It does not: the first component of the key is \<^verbatim>\<open>status != "open"\<close>, so
  in_progress and resolved records are ordered among themselves by votes, and a resolved
  record with five votes is listed before an in_progress record with none.
\<close>

theorem resolved_listed_before_in_progress:
  "sorted_for_display
     [[(''id'', VStr ''A''), (''status'', VStr ''in_progress''), (''votes'', VInt 0),
       (''created_at'', VStr ''2024-05-01T10:00:00'')],
      [(''id'', VStr ''B''), (''status'', VStr ''resolved''), (''votes'', VInt 5),
       (''created_at'', VStr ''2024-05-02T10:00:00'')]]
   = Inr
     [[(''id'', VStr ''B''), (''status'', VStr ''resolved''), (''votes'', VInt 5),
       (''created_at'', VStr ''2024-05-02T10:00:00'')],
      [(''id'', VStr ''A''), (''status'', VStr ''in_progress''), (''votes'', VInt 0),
       (''created_at'', VStr ''2024-05-01T10:00:00'')]]"
  by (simp add: sorted_for_display_def sort_key_of_def py_get_def py_get_default_def)

text \<open>
  C5, amended: on listable records \<open>sorted_for_display\<close> returns a rearrangement of its input
  in which no open record comes after a record that is not open (in_progress and resolved
  are one bucket), records of the same bucket are in descending order of votes, records of
  the same bucket and votes are in ascending order of \<^verbatim>\<open>created_at\<close>, and records that agree on
  all three keep the order they had in the input.
\<close>

theorem open_first_then_votes_then_age:
  assumes "list_all listable xs"
  shows "\<exists>ys. sorted_for_display xs = Inr ys \<and> mset ys = mset xs
     \<and> (\<forall>i j. i < j \<and> j < length ys \<longrightarrow>
          (is_open (ys ! j) \<longrightarrow> is_open (ys ! i))
        \<and> (is_open (ys ! i) = is_open (ys ! j) \<longrightarrow> votes_of (ys ! j) \<le> votes_of (ys ! i))
        \<and> (is_open (ys ! i) = is_open (ys ! j) \<and> votes_of (ys ! i) = votes_of (ys ! j)
             \<longrightarrow> created_at_of (ys ! i) \<le> created_at_of (ys ! j)))
     \<and> (\<forall>b v c. filter (\<lambda>x. is_open x = b \<and> votes_of x = v \<and> created_at_of x = c) ys
                = filter (\<lambda>x. is_open x = b \<and> votes_of x = v \<and> created_at_of x = c) xs)"
proof -
  let ?ys = "sort_key display_key xs"
  have r: "sorted_for_display xs = Inr ?ys"
    using assms by (rule sorted_for_display_listable)
  have m: "mset ?ys = mset xs" by simp
  have s: "sorted (map display_key ?ys)" by simp
  have o: "\<forall>i j. i < j \<and> j < length ?ys \<longrightarrow>
          (is_open (?ys ! j) \<longrightarrow> is_open (?ys ! i))
        \<and> (is_open (?ys ! i) = is_open (?ys ! j) \<longrightarrow> votes_of (?ys ! j) \<le> votes_of (?ys ! i))
        \<and> (is_open (?ys ! i) = is_open (?ys ! j) \<and> votes_of (?ys ! i) = votes_of (?ys ! j)
             \<longrightarrow> created_at_of (?ys ! i) \<le> created_at_of (?ys ! j))"
  proof (intro allI impI)
    fix i j assume ij: "i < j \<and> j < length ?ys"
    then have "i \<le> j" "j < length (map display_key ?ys)" by simp_all
    with s have "map display_key ?ys ! i \<le> map display_key ?ys ! j"
      by (rule sorted_nth_mono)
    with ij have "display_key (?ys ! i) \<le> display_key (?ys ! j)" by simp
    then show "(is_open (?ys ! j) \<longrightarrow> is_open (?ys ! i))
        \<and> (is_open (?ys ! i) = is_open (?ys ! j) \<longrightarrow> votes_of (?ys ! j) \<le> votes_of (?ys ! i))
        \<and> (is_open (?ys ! i) = is_open (?ys ! j) \<and> votes_of (?ys ! i) = votes_of (?ys ! j)
             \<longrightarrow> created_at_of (?ys ! i) \<le> created_at_of (?ys ! j))"
      unfolding display_key_le by auto
  qed
  have t: "\<forall>b v c. filter (\<lambda>x. is_open x = b \<and> votes_of x = v \<and> created_at_of x = c) ?ys
                = filter (\<lambda>x. is_open x = b \<and> votes_of x = v \<and> created_at_of x = c) xs"
  proof (intro allI)
    fix b v c
    have "filter (\<lambda>x. display_key x = (\<not> b, - of_int v, c)) ?ys
        = filter (\<lambda>x. display_key x = (\<not> b, - of_int v, c)) xs"
      by (rule sort_key_stable)
    then show "filter (\<lambda>x. is_open x = b \<and> votes_of x = v \<and> created_at_of x = c) ?ys
                = filter (\<lambda>x. is_open x = b \<and> votes_of x = v \<and> created_at_of x = c) xs"
      by (simp only: display_key_eq)
  qed
  from r m o t show ?thesis by blast
qed

theorem open_first_then_votes_then_age_witness:
  "list_all listable
     [[(''id'', VStr ''A''), (''status'', VStr ''resolved''), (''votes'', VInt 5),
       (''created_at'', VStr ''2024-05-01T10:00:00'')],
      [(''id'', VStr ''B''), (''status'', VStr ''open''), (''votes'', VInt 1),
       (''created_at'', VStr ''2024-05-02T10:00:00'')],
      [(''id'', VStr ''C''), (''status'', VStr ''in_progress''), (''votes'', VInt 5),
       (''created_at'', VStr ''2024-05-03T10:00:00'')],
      [(''id'', VStr ''D''), (''status'', VStr ''open''), (''votes'', VInt 3),
       (''created_at'', VStr ''2024-05-04T10:00:00'')]]
   \<and> (\<exists>ys. sorted_for_display
     [[(''id'', VStr ''A''), (''status'', VStr ''resolved''), (''votes'', VInt 5),
       (''created_at'', VStr ''2024-05-01T10:00:00'')],
      [(''id'', VStr ''B''), (''status'', VStr ''open''), (''votes'', VInt 1),
       (''created_at'', VStr ''2024-05-02T10:00:00'')],
      [(''id'', VStr ''C''), (''status'', VStr ''in_progress''), (''votes'', VInt 5),
       (''created_at'', VStr ''2024-05-03T10:00:00'')],
      [(''id'', VStr ''D''), (''status'', VStr ''open''), (''votes'', VInt 3),
       (''created_at'', VStr ''2024-05-04T10:00:00'')]] = Inr ys
     \<and> mset ys = mset
     [[(''id'', VStr ''A''), (''status'', VStr ''resolved''), (''votes'', VInt 5),
       (''created_at'', VStr ''2024-05-01T10:00:00'')],
      [(''id'', VStr ''B''), (''status'', VStr ''open''), (''votes'', VInt 1),
       (''created_at'', VStr ''2024-05-02T10:00:00'')],
      [(''id'', VStr ''C''), (''status'', VStr ''in_progress''), (''votes'', VInt 5),
       (''created_at'', VStr ''2024-05-03T10:00:00'')],
      [(''id'', VStr ''D''), (''status'', VStr ''open''), (''votes'', VInt 3),
       (''created_at'', VStr ''2024-05-04T10:00:00'')]]
     \<and> ys =
     [[(''id'', VStr ''D''), (''status'', VStr ''open''), (''votes'', VInt 3),
       (''created_at'', VStr ''2024-05-04T10:00:00'')],
      [(''id'', VStr ''B''), (''status'', VStr ''open''), (''votes'', VInt 1),
       (''created_at'', VStr ''2024-05-02T10:00:00'')],
      [(''id'', VStr ''A''), (''status'', VStr ''resolved''), (''votes'', VInt 5),
       (''created_at'', VStr ''2024-05-01T10:00:00'')],
      [(''id'', VStr ''C''), (''status'', VStr ''in_progress''), (''votes'', VInt 5),
       (''created_at'', VStr ''2024-05-03T10:00:00'')]])"
proof -
  let ?a = "[(''id'', VStr ''A''), (''status'', VStr ''resolved''), (''votes'', VInt 5),
       (''created_at'', VStr ''2024-05-01T10:00:00'')]"
  let ?b = "[(''id'', VStr ''B''), (''status'', VStr ''open''), (''votes'', VInt 1),
       (''created_at'', VStr ''2024-05-02T10:00:00'')]"
  let ?c = "[(''id'', VStr ''C''), (''status'', VStr ''in_progress''), (''votes'', VInt 5),
       (''created_at'', VStr ''2024-05-03T10:00:00'')]"
  let ?d = "[(''id'', VStr ''D''), (''status'', VStr ''open''), (''votes'', VInt 3),
       (''created_at'', VStr ''2024-05-04T10:00:00'')]"
  have h: "list_all listable [?a, ?b, ?c, ?d]"
    by (simp add: listable_def py_get_default_def)
  have e: "sorted_for_display [?a, ?b, ?c, ?d] = Inr [?d, ?b, ?a, ?c]"
    by (simp add: sorted_for_display_def sort_key_of_def py_get_def py_get_default_def)
  from open_first_then_votes_then_age [OF h]
  obtain ys where y: "sorted_for_display [?a, ?b, ?c, ?d] = Inr ys"
    and m: "mset ys = mset [?a, ?b, ?c, ?d]" by blast
  from y e have "ys = [?d, ?b, ?a, ?c]" by simp
  with h y m show ?thesis by blast
qed


end
